theory Spec2Isabelle
  imports Complex_Main
begin

section \<open>Shallow embedding of \<^verbatim>\<open>src/pipeline.py\<close>\<close>

text \<open>
  The module defines two classes: \<^verbatim>\<open>DatasetMapper\<close>, a read-through adapter from a
  table of (image file name, label) rows to (image, label) pairs, and \<^verbatim>\<open>Pipeline\<close>,
  whose \<^verbatim>\<open>train\<close> method drives the epoch loop. Every exception the Python can raise in
  the modelled code is a value of \<open>error\<close>; mutation of objects is explicit state passing.

  The tensor engine, the optimizer, the data loader and the dashboard writer are external
  collaborators. What they compute is left open: their operations are the fields of the
  record \<open>torch\<close> below, and every definition takes that record as its first argument.

  The collaborators that run before the epoch loop (reading the csv file, making the
  optimizer and the scheduler) and the methods of the scheduler may raise: they give
  \<open>Inl c\<close>, \<open>c\<close> the name of the exception's class, and the model propagates it as
  \<open>Raised c\<close>. The other constructors of \<open>error\<close> are the exceptions that the
  statements of the module itself raise. The remaining collaborator calls (the model's
  constructor and forward function, the loss and score functions, the optimizer step, the
  loaders, the preprocessor and the teacher function) are total functions: a run in which
  one of them raises is outside the model.
\<close>

datatype error =
    TypeError
  | IndexError
  | OverflowError
  | AssertionError string
  | AttributeError
  | UnboundLocalError
  | ZeroDivisionError
  | Raised string

subsection \<open>\<^verbatim>\<open>DatasetMapper\<close>\<close>

text \<open>The preprocessor is an object with one method, \<^verbatim>\<open>get(path)\<close>.\<close>

record 'i preprocessor =
  get :: "string \<Rightarrow> 'i"

text \<open>
  A cell of the file-name column as \<^verbatim>\<open>pd.read_csv\<close> gives it: a string; an integer,
  a float or a boolean when every name of the column is written as one; NaN for a blank
  name.
\<close>

datatype cell = Str string | Int64 int | Float64 real | Bool bool | NaN

text \<open>
  The attributes set by \<^verbatim>\<open>DatasetMapper.__init__\<close>. \<open>dm_image_data_file\<close> is the data
  frame read from the csv file: its rows, column 0 the file name and column 1 the label.
  The fields carry the prefix \<open>dm_\<close> because \<^verbatim>\<open>Pipeline\<close> has attributes of the same
  names.
\<close>

record ('i, 'l) DatasetMapper =
  dm_root_dir :: string
  dm_image_data_file :: "(cell \<times> 'l) list"
  dm_preprocessor :: "'i preprocessor"
  dm_teacher_func :: "('i \<Rightarrow> 'l) option"

text \<open>
  \<^verbatim>\<open>def __init__(self, root_dir, image_data_file, preprocessor, teacher_func: None)\<close>:
  \<^verbatim>\<open>: None\<close> is an annotation, not a default value, so all four parameters are required.
  The last argument of the model is \<open>None\<close> when the call does not pass \<^verbatim>\<open>teacher_func\<close>
  and \<open>Some v\<close> when it passes the value \<open>v\<close> (where \<open>v = None\<close> is Python's
  \<^verbatim>\<open>None\<close>). Python binds the arguments before the body runs, so a call that leaves
  the argument out raises \<^verbatim>\<open>TypeError\<close> before the csv file is read. \<open>csv\<close> is
  \<^verbatim>\<open>pd.read_csv\<close> on the file system: the rows, or the class of the exception it
  raises (a missing file, an empty file, a malformed one).
\<close>

definition DatasetMapper_init ::
  "(string \<Rightarrow> string + (cell \<times> 'l) list) \<Rightarrow> string \<Rightarrow> string \<Rightarrow> 'i preprocessor \<Rightarrow>
   ('i \<Rightarrow> 'l) option option \<Rightarrow> error + ('i, 'l) DatasetMapper" where
  "DatasetMapper_init csv root_dir image_data_file preprocessor teacher_func =
     (case teacher_func of
        None \<Rightarrow> Inl TypeError
      | Some tf \<Rightarrow>
          (case csv image_data_file of
             Inl c \<Rightarrow> Inl (Raised c)
           | Inr rows \<Rightarrow>
               Inr \<lparr> dm_root_dir = root_dir, dm_image_data_file = rows,
                     dm_preprocessor = preprocessor, dm_teacher_func = tf \<rparr>))"

text \<open>\<^verbatim>\<open>__len__\<close>: \<^verbatim>\<open>self.image_data_file.shape[0]\<close>, the number of rows.\<close>

definition DatasetMapper_len :: "('i, 'l) DatasetMapper \<Rightarrow> nat" where
  "DatasetMapper_len d = length (dm_image_data_file d)"

text \<open>
  The index is a Python int or a tensor holding one; \<^verbatim>\<open>idx.tolist()\<close> turns the tensor
  into the int.
\<close>

datatype index = PyInt int | Tensor int

fun tolist :: "index \<Rightarrow> int" where
  "tolist (PyInt i) = i"
| "tolist (Tensor i) = i"

text \<open>
  \<^verbatim>\<open>iloc[idx, c]\<close> selects a row by position: a negative position counts from the
  end. A position outside the table raises \<^verbatim>\<open>OverflowError\<close> when it does not fit a
  signed 64-bit integer and \<^verbatim>\<open>IndexError\<close> otherwise (a table has fewer than
  \<open>2 ^ 63\<close> rows, so a position inside it fits).
\<close>

definition iloc :: "'r list \<Rightarrow> int \<Rightarrow> error + 'r" where
  "iloc rows i =
     (let n = int (length rows); j = (if i < 0 then n + i else i)
      in if 0 \<le> j \<and> j < n then Inr (rows ! nat j)
         else if 2 ^ 63 \<le> i then Inl OverflowError
         else if i < - (2 ^ 63) then Inl OverflowError
         else Inl IndexError)"

text \<open>
  \<^verbatim>\<open>os.path.join(a, b)\<close> on a POSIX system: an absolute \<open>b\<close> replaces \<open>a\<close>; otherwise
  the two are joined with one separator, which is left out when \<open>a\<close> is empty or ends
  with one.
\<close>

definition os_path_join :: "string \<Rightarrow> string \<Rightarrow> string" where
  "os_path_join a b =
     (case b of
        c # cs \<Rightarrow>
          if c = CHR ''/'' then b
          else if a = [] then b
          else if last a = CHR ''/'' then a @ b
          else a @ ''/'' @ b
      | [] \<Rightarrow>
          if a = [] then b
          else if last a = CHR ''/'' then a @ b
          else a @ ''/'' @ b)"

text \<open>
  \<^verbatim>\<open>__getitem__\<close>. \<^verbatim>\<open>os.path.join\<close> raises \<^verbatim>\<open>TypeError\<close> for a component that is
  not a string, which is what the file-name cell is when \<^verbatim>\<open>read_csv\<close> read it as a
  number, a boolean or NaN.
\<close>

definition DatasetMapper_getitem :: "('i, 'l) DatasetMapper \<Rightarrow> index \<Rightarrow> error + ('i \<times> 'l)" where
  "DatasetMapper_getitem d idx =
     (let i = tolist idx in
      case iloc (dm_image_data_file d) i of
        Inl e \<Rightarrow> Inl e
      | Inr row \<Rightarrow>
          (case fst row of
             Str fname \<Rightarrow>
               (let img_name = os_path_join (dm_root_dir d) fname;
                    image = get (dm_preprocessor d) img_name
                in case dm_teacher_func d of
                     Some teacher \<Rightarrow> Inr (image, teacher image)
                   | None \<Rightarrow>
                       (case iloc (dm_image_data_file d) i of
                          Inl e \<Rightarrow> Inl e
                        | Inr row1 \<Rightarrow> Inr (image, snd row1)))
           | Int64 k \<Rightarrow> Inl TypeError
           | Float64 x \<Rightarrow> Inl TypeError
           | Bool b \<Rightarrow> Inl TypeError
           | NaN \<Rightarrow> Inl TypeError))"

subsection \<open>The objects \<^verbatim>\<open>Pipeline\<close> holds\<close>

datatype device = Cuda | Cpu

text \<open>
  The network: its forward function (which may depend on the train/eval mode), its
  parameters, the mode flag toggled by \<^verbatim>\<open>train()\<close> and \<^verbatim>\<open>eval()\<close>, and the device
  that \<^verbatim>\<open>to(device)\<close> moved it to.
\<close>

record ('t, 'w) module =
  forward :: "bool \<Rightarrow> 'w \<Rightarrow> 't \<Rightarrow> 't"
  parameters :: 'w
  training :: bool
  on_device :: device

record ('i, 'l) DataLoader =
  dataset :: "('i, 'l) DatasetMapper"
  dl_batch_size :: int
  num_workers :: nat
  shuffle :: bool

text \<open>A \<^verbatim>\<open>SummaryWriter\<close>: its directory and the calls it received, in order.\<close>

datatype 't event = Scalar string 't | Flush

record 't SummaryWriter =
  logdir :: string
  events :: "'t event list"

definition add_scalar :: "string \<Rightarrow> 't \<Rightarrow> 't SummaryWriter \<Rightarrow> 't SummaryWriter" where
  "add_scalar tag v w = w\<lparr>events := events w @ [Scalar tag v]\<rparr>"

definition flush :: "'t SummaryWriter \<Rightarrow> 't SummaryWriter" where
  "flush w = w\<lparr>events := events w @ [Flush]\<rparr>"

text \<open>
  The attributes of a \<^verbatim>\<open>Pipeline\<close> object. \<open>epochs\<close> is the attribute that \<^verbatim>\<open>train\<close>
  assigns; \<^verbatim>\<open>__init__\<close> does not create it (\<open>None\<close>).
\<close>

record ('t, 'w, 'a) Pipeline =
  name :: string
  model :: "('t, 'w) module"
  batch_size :: int
  root_dir :: string
  image_data_file :: string
  preprocessor :: "'t preprocessor"
  args :: 'a
  device :: device
  train_loader :: "('t, 't) DataLoader"
  test_loader :: "('t, 't) DataLoader"
  train_writer :: "'t SummaryWriter"
  valid_writer :: "'t SummaryWriter"
  epochs :: "int option"

text \<open>
  An optimizer: the learning rate of its parameter group, which a scheduler rewrites, and
  the rest of its state.
\<close>

record 'o Optimizer =
  group_lr :: real
  opt_state :: 'o

text \<open>
  The external collaborators. \<open>iter ld k\<close> is the list of batches that the loader \<open>ld\<close>
  yields on the pass of epoch \<open>k\<close> (a shuffling loader may yield another order on each
  pass). \<open>backward\<close> is \<^verbatim>\<open>loss.backward()\<close> after \<^verbatim>\<open>zero_grad()\<close>: the gradient of the
  loss function at the model, the input and the labels. \<open>optimizer_step\<close> is
  \<^verbatim>\<open>optimizer.step()\<close>: from the group's learning rate, the optimizer's state, the
  parameters and the gradient to the new state and parameters. \<open>Adam\<close> is the
  constructor \<^verbatim>\<open>optim.Adam(params, lr=lr)\<close>, which raises for arguments it refuses.
  \<open>scheduler_get_lr\<close> and \<open>scheduler_step\<close> are \<^verbatim>\<open>get_lr()\<close> and \<^verbatim>\<open>step()\<close> of a
  scheduler instance that the caller supplies; an instance without the method raises
  \<^verbatim>\<open>AttributeError\<close> there.
\<close>

record ('t, 'w, 'o, 's) torch =
  cuda_is_available :: bool
  now :: string
  read_csv :: "string \<Rightarrow> string + (cell \<times> 't) list"
  iter :: "('t, 't) DataLoader \<Rightarrow> nat \<Rightarrow> ('t \<times> 't) list"
  LongTensor :: "'t \<Rightarrow> 't"
  FloatTensor :: "'t \<Rightarrow> 't"
  numpy :: "'t \<Rightarrow> 't list"
  Adam :: "'w \<Rightarrow> real \<Rightarrow> string + 'o Optimizer"
  backward :: "('t, 'w) module \<Rightarrow> ('t \<Rightarrow> 't \<Rightarrow> 't) \<Rightarrow> 't \<Rightarrow> 't \<Rightarrow> 'w"
  optimizer_step :: "real \<Rightarrow> 'o \<Rightarrow> 'w \<Rightarrow> 'w \<Rightarrow> 'o \<times> 'w"
  scheduler_get_lr :: "'s \<Rightarrow> string + real list"
  scheduler_step :: "'s \<Rightarrow> string + 's"

subsection \<open>\<^verbatim>\<open>Pipeline.__init__\<close>\<close>

definition SummaryWriter_init :: "string \<Rightarrow> 't SummaryWriter" where
  "SummaryWriter_init dir = \<lparr> logdir = dir, events = [] \<rparr>"

text \<open>
  The constructor calls \<^verbatim>\<open>DatasetMapper(root_dir, image_data_file, self.preprocessor)\<close>
  twice, with three arguments: \<^verbatim>\<open>teacher_func\<close> is not passed.
\<close>

definition Pipeline_init ::
  "('t, 'w, 'o, 's) torch \<Rightarrow> string \<Rightarrow> ('a \<Rightarrow> ('t, 'w) module) \<Rightarrow> int \<Rightarrow> string \<Rightarrow> string \<Rightarrow>
   't preprocessor \<Rightarrow> 'a \<Rightarrow> error + ('t, 'w, 'a) Pipeline" where
  "Pipeline_init T nm mk batch rdir file pre kwargs =
     (let self_name = nm @ ''_'' @ now T;
          dev = (if cuda_is_available T then Cuda else Cpu);
          m = (mk kwargs)\<lparr>on_device := dev\<rparr>
      in case DatasetMapper_init (read_csv T) rdir file pre None of
           Inl e \<Rightarrow> Inl e
         | Inr train_set \<Rightarrow>
             (case DatasetMapper_init (read_csv T) rdir file pre None of
                Inl e \<Rightarrow> Inl e
              | Inr test_set \<Rightarrow>
                  Inr \<lparr> name = self_name, model = m, batch_size = batch, root_dir = rdir,
                        image_data_file = file, preprocessor = pre, args = kwargs, device = dev,
                        train_loader = \<lparr> dataset = train_set, dl_batch_size = batch,
                                         num_workers = 0, shuffle = True \<rparr>,
                        test_loader = \<lparr> dataset = test_set, dl_batch_size = batch,
                                        num_workers = 0, shuffle = False \<rparr>,
                        train_writer = SummaryWriter_init (''logs/fit/'' @ self_name @ ''/train''),
                        valid_writer = SummaryWriter_init (''logs/fit/'' @ self_name @ ''/validation''),
                        epochs = None \<rparr>))"

subsection \<open>\<^verbatim>\<open>Pipeline.train\<close>: keyword arguments and local state\<close>

text \<open>
  The keyword arguments that \<^verbatim>\<open>train\<close> reads; \<open>None\<close> is a key that is not in
  \<^verbatim>\<open>kwargs\<close>. A score function is the pair of its \<^verbatim>\<open>"name"\<close> and its \<^verbatim>\<open>"func"\<close>;
  \<open>save_checkpoints\<close> is the pair of its \<^verbatim>\<open>"epoch"\<close> and its \<^verbatim>\<open>"path"\<close>. The
  optimizer constructor \<^verbatim>\<open>optim\<close> and the function \<^verbatim>\<open>step_size_func\<close> are called
  before the epoch loop and may raise.
\<close>

record ('t, 'w, 'o, 's) kwargs =
  num_epochs :: "int option"
  lr :: "real option"
  optim :: "('w \<Rightarrow> real \<Rightarrow> string + 'o Optimizer) option"
  lr_scheduler :: "'s option"
  step_size_func :: "(nat \<Rightarrow> string + real) option"
  loss_func :: "('t \<Rightarrow> 't \<Rightarrow> 't) option"
  loss_func_with_grad :: "('t \<Rightarrow> 't \<Rightarrow> 't) option"
  score_functions :: "(string \<times> ('t list \<Rightarrow> 't list \<Rightarrow> 't)) list option"
  save_checkpoints :: "(int \<times> string) option"

text \<open>
  The scheduler is the caller's instance or a \<^verbatim>\<open>LambdaLR\<close>. The latter is the
  framework's class, modelled by its documented contract: it remembers the learning rate
  that the optimizer's group had at construction (the base rate), its function and the
  number of the last epoch, and it sets the group's rate to the base rate times the
  function of the epoch number, once at construction (epoch 0) and at each \<^verbatim>\<open>step()\<close>.
\<close>

datatype 's scheduler = Custom 's | LambdaLR real "nat \<Rightarrow> string + real" nat

definition LambdaLR_init ::
  "'o Optimizer \<Rightarrow> (nat \<Rightarrow> string + real) \<Rightarrow> error + 's scheduler \<times> 'o Optimizer" where
  "LambdaLR_init opt f =
     (case f 0 of
        Inl c \<Rightarrow> Inl (Raised c)
      | Inr v \<Rightarrow> Inr (LambdaLR (group_lr opt) f 0, opt\<lparr>group_lr := group_lr opt * v\<rparr>))"

text \<open>\<^verbatim>\<open>lr_scheduler.get_lr()\<close>: for a \<^verbatim>\<open>LambdaLR\<close>, the base rate times the function
  of the last epoch.\<close>

fun lr_scheduler_get_lr :: "('t, 'w, 'o, 's) torch \<Rightarrow> 's scheduler \<Rightarrow> error + real list" where
  "lr_scheduler_get_lr T (Custom s) =
     (case scheduler_get_lr T s of
        Inl c \<Rightarrow> Inl (Raised c)
      | Inr rates \<Rightarrow> Inr rates)"
| "lr_scheduler_get_lr T (LambdaLR base f n) =
     (case f n of
        Inl c \<Rightarrow> Inl (Raised c)
      | Inr v \<Rightarrow> Inr [base * v])"

text \<open>\<^verbatim>\<open>lr_scheduler.step()\<close>.\<close>

fun lr_scheduler_step ::
  "('t, 'w, 'o, 's) torch \<Rightarrow> 's scheduler \<Rightarrow> 'o Optimizer \<Rightarrow>
   error + 's scheduler \<times> 'o Optimizer" where
  "lr_scheduler_step T (Custom s) opt =
     (case scheduler_step T s of
        Inl c \<Rightarrow> Inl (Raised c)
      | Inr s1 \<Rightarrow> Inr (Custom s1, opt))"
| "lr_scheduler_step T (LambdaLR base f n) opt =
     (case f (Suc n) of
        Inl c \<Rightarrow> Inl (Raised c)
      | Inr v \<Rightarrow> Inr (LambdaLR base f (Suc n), opt\<lparr>group_lr := base * v\<rparr>))"

text \<open>
  An entry of \<^verbatim>\<open>log["errors"]\<close>: \<^verbatim>\<open>{"epoch", "step", "loss"}\<close> from the training loop,
  \<^verbatim>\<open>{"epoch", "loss"}\<close> from the validation loop. An entry of \<^verbatim>\<open>log["scores"]\<close> is
  \<^verbatim>\<open>{"epoch", "scores"}\<close>, the scores a list of one-key dicts.
\<close>

datatype 't entry = TrainEntry nat nat 't | ValidEntry nat 't

record 't log =
  errors :: "'t entry list"
  scores :: "(nat \<times> (string \<times> 't) list) list"

text \<open>The dict that \<^verbatim>\<open>torch.save\<close> writes.\<close>

record ('t, 'w, 'o) checkpoint =
  ck_epoch :: nat
  model_state_dict :: 'w
  optimizer_state_dict :: "'o Optimizer"
  ck_loss :: 't

text \<open>
  The state of a run of \<^verbatim>\<open>train\<close>: the object, the local variables, and \<open>saved\<close>, the
  files that \<^verbatim>\<open>torch.save\<close> wrote so far (path and content, in order). \<open>loss\<close> is
  \<open>None\<close> until the first assignment to the local variable \<^verbatim>\<open>loss\<close>.
\<close>

record ('t, 'w, 'a, 'o, 's) locals =
  self :: "('t, 'w, 'a) Pipeline"
  optimizer :: "'o Optimizer"
  sched :: "'s scheduler"
  training_log :: "'t log"
  validation_log :: "'t log"
  ys :: "'t list"
  y_preds :: "'t list"
  step :: nat
  loss :: "'t option"
  saved :: "(string \<times> ('t, 'w, 'o) checkpoint) list"

text \<open>
  A \<^verbatim>\<open>for\<close> loop whose body may raise: the loop stops at the first exception, with the
  state as it was when the exception was raised.
\<close>

fun foreach :: "'b list \<Rightarrow> ('b \<Rightarrow> 'st \<Rightarrow> error option \<times> 'st) \<Rightarrow> 'st \<Rightarrow> error option \<times> 'st" where
  "foreach [] body st = (None, st)"
| "foreach (b # bs) body st =
     (case body b st of
        (None, st1) \<Rightarrow> foreach bs body st1
      | (Some e, st1) \<Rightarrow> (Some e, st1))"

subsection \<open>\<^verbatim>\<open>Pipeline.train\<close>: the loop bodies\<close>

text \<open>
  Both logs are dicts, \<^verbatim>\<open>{"errors": [], "scores": []}\<close>. The training loop appends to
  the list \<^verbatim>\<open>training_log["errors"]\<close>; the validation loop calls
  \<^verbatim>\<open>validation_log.append(...)\<close> on the dict itself. A Python dict has no attribute
  \<^verbatim>\<open>append\<close>: the attribute lookup raises \<^verbatim>\<open>AttributeError\<close>.
\<close>

definition list_append :: "'e list \<Rightarrow> 'e \<Rightarrow> 'e list" where
  "list_append xs x = xs @ [x]"

definition dict_append :: "'t log \<Rightarrow> 't entry \<Rightarrow> error + 't log" where
  "dict_append d x = Inl AttributeError"

text \<open>
  One pass of the body of \<^verbatim>\<open>for x_train, y_train in self.train_loader\<close>. The progress
  bar only displays and is left out; moving a tensor to the device does not change its
  value. \<open>step\<close> is read, never assigned, in the body.
\<close>

definition train_batch ::
  "('t, 'w, 'o, 's) torch \<Rightarrow> ('t \<Rightarrow> 't \<Rightarrow> 't) \<Rightarrow> nat \<Rightarrow> 't \<times> 't \<Rightarrow>
   ('t, 'w, 'a, 'o, 's) locals \<Rightarrow> error option \<times> ('t, 'w, 'a, 'o, 's) locals" where
  "train_batch T lwg epoch b st =
     (let x = LongTensor T (fst b);
          y = FloatTensor T (snd b);
          m = model (self st);
          y_pred = forward m (training m) (parameters m) x;
          l = lwg y_pred y;
          grad = backward T m lwg x y;
          stepped = optimizer_step T (group_lr (optimizer st)) (opt_state (optimizer st))
                      (parameters m) grad;
          tlog = training_log st
      in (None,
          st\<lparr> self := (self st)\<lparr> model := m\<lparr>parameters := snd stepped\<rparr>,
                                 train_writer := flush (add_scalar ''loss'' l (train_writer (self st))) \<rparr>,
              optimizer := (optimizer st)\<lparr>opt_state := fst stepped\<rparr>,
              loss := Some l,
              training_log := tlog\<lparr>errors := list_append (errors tlog) (TrainEntry epoch (step st) l)\<rparr>,
              ys := ys st @ numpy T y,
              y_preds := y_preds st @ numpy T y_pred \<rparr>))"

text \<open>
  One pass of the body of \<^verbatim>\<open>for x_test, y_test in self.test_loader\<close>. The statements
  after \<^verbatim>\<open>validation_log.append\<close> are those of the source; they run only if the call
  returns.
\<close>

definition valid_batch ::
  "('t, 'w, 'o, 's) torch \<Rightarrow> ('t \<Rightarrow> 't \<Rightarrow> 't) \<Rightarrow> nat \<Rightarrow> 't \<times> 't \<Rightarrow>
   ('t, 'w, 'a, 'o, 's) locals \<Rightarrow> error option \<times> ('t, 'w, 'a, 'o, 's) locals" where
  "valid_batch T lf epoch b st =
     (let x = LongTensor T (fst b);
          y = FloatTensor T (snd b);
          m = model (self st);
          y_pred = forward m (training m) (parameters m) x;
          l = lf y_pred y;
          st1 = st\<lparr>loss := Some l\<rparr>
      in case dict_append (validation_log st1) (ValidEntry epoch l) of
           Inl e \<Rightarrow> (Some e, st1)
         | Inr vlog \<Rightarrow>
             (None,
              st1\<lparr> validation_log := vlog,
                   self := (self st1)\<lparr>valid_writer := add_scalar ''loss'' l (valid_writer (self st1))\<rparr>,
                   ys := ys st1 @ numpy T y,
                   y_preds := y_preds st1 @ numpy T y_pred \<rparr>))"

text \<open>
  The scores of one phase: each score function applied to the accumulators \<^verbatim>\<open>ys\<close> and
  \<^verbatim>\<open>y_preds\<close> as they are at that point.
\<close>

definition compute_scores ::
  "(string \<times> ('t list \<Rightarrow> 't list \<Rightarrow> 't)) list \<Rightarrow> 't list \<Rightarrow> 't list \<Rightarrow> (string \<times> 't) list" where
  "compute_scores sfs labels preds = map (\<lambda>sf. (fst sf, snd sf labels preds)) sfs"

definition add_scalars :: "(string \<times> 't) list \<Rightarrow> 't SummaryWriter \<Rightarrow> 't SummaryWriter" where
  "add_scalars svs w = fold (\<lambda>sv. add_scalar (fst sv) (snd sv)) svs w"

definition training_scores ::
  "('t, 'w, 'o, 's) kwargs \<Rightarrow> nat \<Rightarrow> ('t, 'w, 'a, 'o, 's) locals \<Rightarrow> ('t, 'w, 'a, 'o, 's) locals" where
  "training_scores kw epoch st =
     (case score_functions kw of
        None \<Rightarrow> st
      | Some sfs \<Rightarrow>
          (let sc = compute_scores sfs (ys st) (y_preds st);
               tlog = training_log st
           in st\<lparr> self := (self st)\<lparr>train_writer := flush (add_scalars sc (train_writer (self st)))\<rparr>,
                  training_log := tlog\<lparr>scores := list_append (scores tlog) (epoch, sc)\<rparr> \<rparr>))"

definition validation_scores ::
  "('t, 'w, 'o, 's) kwargs \<Rightarrow> nat \<Rightarrow> ('t, 'w, 'a, 'o, 's) locals \<Rightarrow> ('t, 'w, 'a, 'o, 's) locals" where
  "validation_scores kw epoch st =
     (case score_functions kw of
        None \<Rightarrow> st
      | Some sfs \<Rightarrow>
          (let sc = compute_scores sfs (ys st) (y_preds st);
               vlog = validation_log st
           in st\<lparr> self := (self st)\<lparr>valid_writer := flush (add_scalars sc (valid_writer (self st)))\<rparr>,
                  validation_log := vlog\<lparr>scores := list_append (scores vlog) (epoch, sc)\<rparr> \<rparr>))"

text \<open>
  The checkpoint step, at the end of an epoch. \<^verbatim>\<open>epoch % k\<close> raises
  \<^verbatim>\<open>ZeroDivisionError\<close> for \<open>k = 0\<close>; otherwise it is the remainder with the sign of
  \<open>k\<close>, as \<open>mod\<close> on \<open>int\<close> is. Building the dict reads the local variable \<^verbatim>\<open>loss\<close>,
  which is unbound when no batch has run so far.
\<close>

definition checkpoint_step ::
  "('t, 'w, 'o, 's) kwargs \<Rightarrow> nat \<Rightarrow> ('t, 'w, 'a, 'o, 's) locals \<Rightarrow>
   error option \<times> ('t, 'w, 'a, 'o, 's) locals" where
  "checkpoint_step kw epoch st =
     (case save_checkpoints kw of
        None \<Rightarrow> (None, st)
      | Some cfg \<Rightarrow>
          if fst cfg = 0 then (Some ZeroDivisionError, st)
          else if int epoch mod fst cfg = 0 then
            (case loss st of
               None \<Rightarrow> (Some UnboundLocalError, st)
             | Some l \<Rightarrow>
                 (None,
                  st\<lparr>saved := saved st @
                       [(snd cfg,
                         \<lparr> ck_epoch = epoch,
                           model_state_dict = parameters (model (self st)),
                           optimizer_state_dict = optimizer st,
                           ck_loss = l \<rparr>)]\<rparr>))
          else (None, st))"

text \<open>
  The two phases of an epoch, and the body of \<^verbatim>\<open>for epoch in pbar\<close>, which starts
  with \<^verbatim>\<open>pbar.set_postfix({"lr": lr_scheduler.get_lr()})\<close>: the rates are displayed
  only, but the call may raise.
\<close>

definition train_phase ::
  "('t, 'w, 'o, 's) torch \<Rightarrow> ('t, 'w, 'o, 's) kwargs \<Rightarrow> ('t \<Rightarrow> 't \<Rightarrow> 't) \<Rightarrow> nat \<Rightarrow>
   ('t, 'w, 'a, 'o, 's) locals \<Rightarrow> error option \<times> ('t, 'w, 'a, 'o, 's) locals" where
  "train_phase T kw lwg epoch st =
     (let st1 = st\<lparr> ys := [], y_preds := [],
                    self := (self st)\<lparr>model := (model (self st))\<lparr>training := True\<rparr>\<rparr>,
                    step := 0 \<rparr>
      in case foreach (iter T (train_loader (self st1)) epoch) (train_batch T lwg epoch) st1 of
           (Some e, st2) \<Rightarrow> (Some e, st2)
         | (None, st2) \<Rightarrow>
             (case lr_scheduler_step T (sched st2) (optimizer st2) of
                Inl e \<Rightarrow> (Some e, st2)
              | Inr stepped \<Rightarrow>
                  (let st3 = st2\<lparr>sched := fst stepped, optimizer := snd stepped\<rparr>
                   in (None, training_scores kw epoch st3))))"

definition valid_phase ::
  "('t, 'w, 'o, 's) torch \<Rightarrow> ('t, 'w, 'o, 's) kwargs \<Rightarrow> ('t \<Rightarrow> 't \<Rightarrow> 't) \<Rightarrow> nat \<Rightarrow>
   ('t, 'w, 'a, 'o, 's) locals \<Rightarrow> error option \<times> ('t, 'w, 'a, 'o, 's) locals" where
  "valid_phase T kw lf epoch st =
     (let st1 = st\<lparr>self := (self st)\<lparr>model := (model (self st))\<lparr>training := False\<rparr>\<rparr>\<rparr>
      in case foreach (iter T (test_loader (self st1)) epoch) (valid_batch T lf epoch) st1 of
           (Some e, st2) \<Rightarrow> (Some e, st2)
         | (None, st2) \<Rightarrow> (None, validation_scores kw epoch st2))"

definition epoch_body ::
  "('t, 'w, 'o, 's) torch \<Rightarrow> ('t, 'w, 'o, 's) kwargs \<Rightarrow> ('t \<Rightarrow> 't \<Rightarrow> 't) \<Rightarrow> ('t \<Rightarrow> 't \<Rightarrow> 't) \<Rightarrow>
   nat \<Rightarrow> ('t, 'w, 'a, 'o, 's) locals \<Rightarrow> error option \<times> ('t, 'w, 'a, 'o, 's) locals" where
  "epoch_body T kw lf lwg epoch st =
     (case lr_scheduler_get_lr T (sched st) of
        Inl e \<Rightarrow> (Some e, st)
      | Inr rates \<Rightarrow>
          (case train_phase T kw lwg epoch st of
             (Some e, st1) \<Rightarrow> (Some e, st1)
           | (None, st1) \<Rightarrow>
               (case valid_phase T kw lf epoch st1 of
                  (Some e, st2) \<Rightarrow> (Some e, st2)
                | (None, st2) \<Rightarrow> checkpoint_step kw epoch st2)))"

subsection \<open>\<^verbatim>\<open>Pipeline.train\<close>\<close>

text \<open>
  The learning rate, the optimizer and the scheduler, as \<^verbatim>\<open>train\<close> sets them up. The
  fallback scheduler is \<^verbatim>\<open>LambdaLR(optimizer, lambda e: lr)\<close>.
\<close>

definition get_lr :: "('t, 'w, 'o, 's) kwargs \<Rightarrow> real" where
  "get_lr kw = (case lr kw of Some v \<Rightarrow> v | None \<Rightarrow> 1 / 1000)"

definition make_optimizer ::
  "('t, 'w, 'o, 's) torch \<Rightarrow> ('t, 'w, 'o, 's) kwargs \<Rightarrow> 'w \<Rightarrow> error + 'o Optimizer" where
  "make_optimizer T kw params =
     (case (case optim kw of
              Some mk \<Rightarrow> mk params (get_lr kw)
            | None \<Rightarrow> Adam T params (get_lr kw)) of
        Inl c \<Rightarrow> Inl (Raised c)
      | Inr opt \<Rightarrow> Inr opt)"

definition make_scheduler ::
  "('t, 'w, 'o, 's) kwargs \<Rightarrow> 'o Optimizer \<Rightarrow> error + 's scheduler \<times> 'o Optimizer" where
  "make_scheduler kw opt =
     (case lr_scheduler kw of
        Some s \<Rightarrow> Inr (Custom s, opt)
      | None \<Rightarrow>
          (case step_size_func kw of
             Some f \<Rightarrow> LambdaLR_init opt f
           | None \<Rightarrow> LambdaLR_init opt (\<lambda>e. Inr (get_lr kw))))"

definition empty_log :: "'t log" where
  "empty_log = \<lparr> errors = [], scores = [] \<rparr>"

text \<open>
  Lines 144 to 165 and 184 to 185: the state in which the epoch loop starts, with
  \<^verbatim>\<open>self.epochs\<close> assigned, the optimizer and scheduler made, both logs empty,
  \<^verbatim>\<open>loss\<close> unbound and no file written; or the exception that making the optimizer or
  the scheduler raised.
\<close>

definition initial_locals ::
  "('t, 'w, 'o, 's) torch \<Rightarrow> ('t, 'w, 'o, 's) kwargs \<Rightarrow> int \<Rightarrow> ('t, 'w, 'a) Pipeline \<Rightarrow>
   error + ('t, 'w, 'a, 'o, 's) locals" where
  "initial_locals T kw n p =
     (case make_optimizer T kw (parameters (model p)) of
        Inl e \<Rightarrow> Inl e
      | Inr opt \<Rightarrow>
          (case make_scheduler kw opt of
             Inl e \<Rightarrow> Inl e
           | Inr made \<Rightarrow>
               Inr \<lparr> self = p\<lparr>epochs := Some n\<rparr>, optimizer = snd made, sched = fst made,
                     training_log = empty_log, validation_log = empty_log,
                     ys = [], y_preds = [], step = 0, loss = None, saved = [] \<rparr>))"

text \<open>
  \<^verbatim>\<open>train\<close> returns the two logs or raises; the model gives, with that outcome, the
  \<^verbatim>\<open>Pipeline\<close> object and the files written when \<^verbatim>\<open>train\<close> is left.
  \<^verbatim>\<open>range(n)\<close> is empty for \<open>n \<le> 0\<close>. The assertion on the loss functions comes after
  the optimizer and the scheduler are made, so an exception of theirs comes first.
\<close>

definition Pipeline_train ::
  "('t, 'w, 'o, 's) torch \<Rightarrow> ('t, 'w, 'o, 's) kwargs \<Rightarrow> ('t, 'w, 'a) Pipeline \<Rightarrow>
   (error + 't log \<times> 't log) \<times> ('t, 'w, 'a) Pipeline \<times> (string \<times> ('t, 'w, 'o) checkpoint) list" where
  "Pipeline_train T kw p =
     (case num_epochs kw of
        None \<Rightarrow> (Inl (AssertionError ''Provide num_epochs in **kwargs''), p, [])
      | Some n \<Rightarrow>
          (case initial_locals T kw n p of
             Inl e \<Rightarrow> (Inl e, p\<lparr>epochs := Some n\<rparr>, [])
           | Inr st0 \<Rightarrow>
               (case loss_func kw of
                  None \<Rightarrow>
                    (Inl (AssertionError ''loss_func and loss_func_with_grad must be present in **kwargs''),
                     self st0, saved st0)
                | Some lf \<Rightarrow>
                    (case loss_func_with_grad kw of
                       None \<Rightarrow>
                         (Inl (AssertionError ''loss_func and loss_func_with_grad must be present in **kwargs''),
                          self st0, saved st0)
                     | Some lwg \<Rightarrow>
                         (case foreach [0..<nat n] (epoch_body T kw lf lwg) st0 of
                            (Some e, st) \<Rightarrow> (Inl e, self st, saved st)
                          | (None, st) \<Rightarrow>
                              (Inr (training_log st, validation_log st), self st, saved st))))))"

text \<open>The three components of what \<open>Pipeline_train\<close> gives.\<close>

definition outcome :: "'r \<times> 'p \<times> 'f \<Rightarrow> 'r" where
  "outcome r = fst r"

definition self_after :: "'r \<times> 'p \<times> 'f \<Rightarrow> 'p" where
  "self_after r = fst (snd r)"

definition files_written :: "'r \<times> 'p \<times> 'f \<Rightarrow> 'f" where
  "files_written r = snd (snd r)"

subsection \<open>What \<^verbatim>\<open>train\<close> leaves alone\<close>

text \<open>
  \<open>same_attributes p q\<close>: the object \<open>q\<close> has the attributes of \<open>p\<close>, apart from
  \<^verbatim>\<open>epochs\<close>, the parameters and the mode of the model, and the calls that the two
  writers received. \<open>frame\<close> is the same between two states of a run, where \<^verbatim>\<open>epochs\<close>
  does not change either.
\<close>

definition same_attributes :: "('t, 'w, 'a) Pipeline \<Rightarrow> ('t, 'w, 'a) Pipeline \<Rightarrow> bool" where
  "same_attributes p q \<longleftrightarrow>
     name q = name p \<and> batch_size q = batch_size p \<and> root_dir q = root_dir p \<and>
     image_data_file q = image_data_file p \<and> preprocessor q = preprocessor p \<and>
     args q = args p \<and> device q = device p \<and>
     train_loader q = train_loader p \<and> test_loader q = test_loader p \<and>
     logdir (train_writer q) = logdir (train_writer p) \<and>
     logdir (valid_writer q) = logdir (valid_writer p) \<and>
     forward (model q) = forward (model p) \<and> on_device (model q) = on_device (model p)"

definition frame :: "('t, 'w, 'a, 'o, 's) locals \<Rightarrow> ('t, 'w, 'a, 'o, 's) locals \<Rightarrow> bool" where
  "frame st st1 \<longleftrightarrow> same_attributes (self st) (self st1) \<and> epochs (self st1) = epochs (self st)"

subsection \<open>Concrete runs\<close>

text \<open>
  Collaborators for concrete runs: tensors are integers, the shuffling (training) loader
  yields the batches \<open>tr\<close> and the other (validation) loader the batches \<open>te\<close> on every
  pass, casts do not change a value, and a tensor has one row. \<^verbatim>\<open>Adam\<close> refuses a
  negative rate with \<^verbatim>\<open>ValueError\<close>. The parameters are the list of the learning rates
  that the optimizer steps were made with, so that a run shows the rate in effect at each
  step.
\<close>

definition torch_ex ::
  "(int \<times> int) list \<Rightarrow> (int \<times> int) list \<Rightarrow> (int, real list, unit, unit) torch" where
  "torch_ex tr te =
     \<lparr> cuda_is_available = False, now = ''20200101-000000'',
       read_csv = (\<lambda>f. Inr []),
       iter = (\<lambda>ld k. if shuffle ld then tr else te),
       LongTensor = (\<lambda>t. t), FloatTensor = (\<lambda>t. t), numpy = (\<lambda>t. [t]),
       Adam = (\<lambda>w r. if r < 0 then Inl ''ValueError''
                      else Inr \<lparr> group_lr = r, opt_state = () \<rparr>),
       backward = (\<lambda>m f x y. []),
       optimizer_step = (\<lambda>r s w g. (s, w @ [r])),
       scheduler_get_lr = (\<lambda>s. Inr []),
       scheduler_step = (\<lambda>s. Inr s) \<rparr>"

definition mapper_ex :: "(int, int) DatasetMapper" where
  "mapper_ex =
     \<lparr> dm_root_dir = ''imgs'',
       dm_image_data_file = [(Str ''a.png'', 1), (Str ''bb.png'', 2), (Str ''ccc.png'', 3)],
       dm_preprocessor = \<lparr> get = (\<lambda>path. int (length path)) \<rparr>, dm_teacher_func = None \<rparr>"

definition teacher_mapper_ex :: "(int, int) DatasetMapper" where
  "teacher_mapper_ex = mapper_ex\<lparr>dm_teacher_func := Some (\<lambda>image. image + 100)\<rparr>"

text \<open>The table of a csv file whose image names are \<^verbatim>\<open>7\<close> and \<^verbatim>\<open>8\<close>.\<close>

definition numeric_mapper_ex :: "(int, int) DatasetMapper" where
  "numeric_mapper_ex = mapper_ex\<lparr>dm_image_data_file := [(Int64 7, 1), (Int64 8, 2)]\<rparr>"

definition pipeline_ex :: "(int, real list, unit) Pipeline" where
  "pipeline_ex =
     \<lparr> name = ''run_20200101-000000'',
       model = \<lparr> forward = (\<lambda>mode w x. 2 * x), parameters = [], training = False,
                 on_device = Cpu \<rparr>,
       batch_size = 1, root_dir = ''imgs'', image_data_file = ''labels.csv'',
       preprocessor = \<lparr> get = (\<lambda>path. int (length path)) \<rparr>, args = (), device = Cpu,
       train_loader = \<lparr> dataset = mapper_ex, dl_batch_size = 1, num_workers = 0, shuffle = True \<rparr>,
       test_loader = \<lparr> dataset = mapper_ex, dl_batch_size = 1, num_workers = 0, shuffle = False \<rparr>,
       train_writer = \<lparr> logdir = ''logs/fit/run_20200101-000000/train'', events = [] \<rparr>,
       valid_writer = \<lparr> logdir = ''logs/fit/run_20200101-000000/validation'', events = [] \<rparr>,
       epochs = None \<rparr>"

text \<open>
  \<^verbatim>\<open>train(num_epochs=n, loss_func=f, loss_func_with_grad=f)\<close> with
  \<^verbatim>\<open>f = lambda y_pred, y: y_pred - y\<close>, and the same call with one more keyword.
\<close>

definition kwargs_ex :: "int \<Rightarrow> (int, real list, unit, unit) kwargs" where
  "kwargs_ex n =
     \<lparr> num_epochs = Some n, lr = None, optim = None, lr_scheduler = None, step_size_func = None,
       loss_func = Some (\<lambda>y_pred y. y_pred - y),
       loss_func_with_grad = Some (\<lambda>y_pred y. y_pred - y),
       score_functions = None, save_checkpoints = None \<rparr>"

definition kwargs_checkpoints_ex :: "int \<Rightarrow> int \<Rightarrow> (int, real list, unit, unit) kwargs" where
  "kwargs_checkpoints_ex n k = (kwargs_ex n)\<lparr>save_checkpoints := Some (k, ''model.pt'')\<rparr>"

definition kwargs_scores_ex :: "int \<Rightarrow> (int, real list, unit, unit) kwargs" where
  "kwargs_scores_ex n =
     (kwargs_ex n)\<lparr>score_functions := Some [(''total'', \<lambda>labels preds. sum_list preds - sum_list labels)]\<rparr>"

definition kwargs_no_loss_ex :: "int \<Rightarrow> (int, real list, unit, unit) kwargs" where
  "kwargs_no_loss_ex n = (kwargs_ex n)\<lparr>loss_func := None\<rparr>"

definition kwargs_no_epochs_ex :: "(int, real list, unit, unit) kwargs" where
  "kwargs_no_epochs_ex = (kwargs_ex 1)\<lparr>num_epochs := None\<rparr>"

text \<open>\<^verbatim>\<open>train(num_epochs=n, lr=-1.0, loss_func_with_grad=f)\<close>.\<close>

definition kwargs_negative_lr_ex :: "int \<Rightarrow> (int, real list, unit, unit) kwargs" where
  "kwargs_negative_lr_ex n = (kwargs_no_loss_ex n)\<lparr>lr := Some (- 1)\<rparr>"

section \<open>Properties\<close>

subsection \<open>Loops and frames\<close>

lemmas train_defs =
  Pipeline_train_def initial_locals_def make_scheduler_def make_optimizer_def get_lr_def
  LambdaLR_init_def empty_log_def epoch_body_def train_phase_def valid_phase_def
  train_batch_def valid_batch_def training_scores_def validation_scores_def
  checkpoint_step_def dict_append_def list_append_def add_scalar_def flush_def
  add_scalars_def compute_scores_def outcome_def self_after_def files_written_def

lemmas example_defs =
  torch_ex_def pipeline_ex_def kwargs_ex_def kwargs_checkpoints_ex_def kwargs_scores_ex_def
  kwargs_no_loss_ex_def kwargs_no_epochs_ex_def kwargs_negative_lr_ex_def mapper_ex_def
  teacher_mapper_ex_def numeric_mapper_ex_def

lemma frame_refl: "frame st st"
  by (simp add: frame_def same_attributes_def)

lemma frame_trans: "frame a b \<Longrightarrow> frame b c \<Longrightarrow> frame a c"
  by (simp add: frame_def same_attributes_def)

lemma foreach_rel:
  assumes refl: "\<And>s. R s s"
    and trans: "\<And>a b c. R a b \<Longrightarrow> R b c \<Longrightarrow> R a c"
    and body: "\<And>b s. R s (snd (body b s))"
  shows "R st (snd (foreach bs body st))"
proof (induction bs arbitrary: st)
  case Nil
  show ?case by (simp add: refl)
next
  case (Cons b bs)
  obtain r st1 where b: "body b st = (r, st1)" by (cases "body b st")
  have step: "R st st1" using body [of st b] b by simp
  show ?case
  proof (cases r)
    case None
    have "R st1 (snd (foreach bs body st1))" by (rule Cons.IH)
    with step have "R st (snd (foreach bs body st1))" by (rule trans)
    then show ?thesis using b None by simp
  next
    case (Some e)
    then show ?thesis using b step by simp
  qed
qed

lemma foreach_ok:
  assumes "\<And>b s. fst (body b s) = None"
  shows "fst (foreach bs body st) = None"
proof (induction bs arbitrary: st)
  case Nil
  show ?case by simp
next
  case (Cons b bs)
  obtain r st1 where b: "body b st = (r, st1)" by (cases "body b st")
  then have "r = None" using assms [of b st] by simp
  then show ?case using b Cons.IH by simp
qed

lemma foreach_error:
  assumes body: "\<And>b s e. fst (body b s) = Some e \<Longrightarrow> P e"
    and raised: "fst (foreach bs body st) = Some e"
  shows "P e"
  using raised
proof (induction bs arbitrary: st)
  case Nil
  then show ?case by simp
next
  case (Cons b bs)
  obtain r st1 where b: "body b st = (r, st1)" by (cases "body b st")
  show ?case
  proof (cases r)
    case None
    then show ?thesis using b Cons by simp
  next
    case (Some e1)
    then have "fst (body b st) = Some e" using b Cons.prems by simp
    then show ?thesis by (rule body)
  qed
qed

lemma add_scalars_logdir: "logdir (add_scalars svs w) = logdir w"
  unfolding add_scalars_def by (induction svs arbitrary: w) (simp_all add: add_scalar_def)

lemma train_batch_ok: "fst (train_batch T lwg epoch b st) = None"
  by (simp add: train_batch_def Let_def)

lemma train_batch_frame: "frame st (snd (train_batch T lwg epoch b st))"
  by (simp add: train_batch_def Let_def frame_def same_attributes_def add_scalar_def flush_def)

lemma valid_batch_error: "fst (valid_batch T lf epoch b st) = Some AttributeError"
  by (simp add: valid_batch_def dict_append_def Let_def)

lemma valid_batch_frame: "frame st (snd (valid_batch T lf epoch b st))"
  by (simp add: valid_batch_def dict_append_def Let_def frame_def same_attributes_def)

lemma training_scores_frame: "frame st (training_scores kw epoch st)"
  by (simp add: training_scores_def Let_def frame_def same_attributes_def flush_def
      add_scalars_logdir split: option.split)

lemma validation_scores_frame: "frame st (validation_scores kw epoch st)"
  by (simp add: validation_scores_def Let_def frame_def same_attributes_def flush_def
      add_scalars_logdir split: option.split)

lemma checkpoint_step_frame: "frame st (snd (checkpoint_step kw epoch st))"
  by (simp add: checkpoint_step_def frame_def same_attributes_def split: option.split)

lemma train_batches_ok:
  "fst (foreach bs (train_batch T lwg epoch) st) = None"
  by (rule foreach_ok) (rule train_batch_ok)

lemma train_phase_error:
  assumes "fst (train_phase T kw lwg epoch st) = Some e"
  shows "\<exists>c. e = Raised c"
proof -
  let ?st1 = "st\<lparr> ys := [], y_preds := [],
                    self := (self st)\<lparr>model := (model (self st))\<lparr>training := True\<rparr>\<rparr>,
                    step := 0 \<rparr>"
  let ?r = "foreach (iter T (train_loader (self ?st1)) epoch) (train_batch T lwg epoch) ?st1"
  have "fst ?r = None" by (rule train_batches_ok)
  then obtain st2 where r: "?r = (None, st2)" by (cases ?r) simp
  show ?thesis
  proof (cases "sched st2")
    case (Custom c)
    then show ?thesis using assms r
      by (auto simp: train_phase_def Let_def split: sum.splits)
  next
    case (LambdaLR base f n)
    then show ?thesis using assms r
      by (auto simp: train_phase_def Let_def split: sum.splits)
  qed
qed

lemma train_phase_frame: "frame st (snd (train_phase T kw lwg epoch st))"
proof -
  let ?st1 = "st\<lparr> ys := [], y_preds := [],
                    self := (self st)\<lparr>model := (model (self st))\<lparr>training := True\<rparr>\<rparr>,
                    step := 0 \<rparr>"
  let ?r = "foreach (iter T (train_loader (self ?st1)) epoch) (train_batch T lwg epoch) ?st1"
  have a: "frame st ?st1" by (simp add: frame_def same_attributes_def)
  have b: "frame ?st1 (snd ?r)"
    by (rule foreach_rel [where R = frame]) (auto intro: frame_refl frame_trans train_batch_frame)
  have "fst ?r = None" by (rule train_batches_ok)
  then obtain st2 where r: "?r = (None, st2)" by (cases ?r) simp
  have c: "frame st st2" using a b r frame_trans by (metis snd_conv)
  show ?thesis
  proof (cases "lr_scheduler_step T (sched st2) (optimizer st2)")
    case (Inl e)
    then show ?thesis using r c by (simp add: train_phase_def Let_def)
  next
    case (Inr stepped)
    let ?st3 = "st2\<lparr>sched := fst stepped, optimizer := snd stepped\<rparr>"
    have d: "frame st ?st3" using c by (simp add: frame_def)
    have "frame st (training_scores kw epoch ?st3)"
      using d training_scores_frame [of ?st3 kw epoch] frame_trans by blast
    then show ?thesis using r Inr by (simp add: train_phase_def Let_def)
  qed
qed

lemma valid_phase_frame: "frame st (snd (valid_phase T kw lf epoch st))"
proof -
  let ?st1 = "st\<lparr>self := (self st)\<lparr>model := (model (self st))\<lparr>training := False\<rparr>\<rparr>\<rparr>"
  let ?r = "foreach (iter T (test_loader (self ?st1)) epoch) (valid_batch T lf epoch) ?st1"
  have a: "frame st ?st1" by (simp add: frame_def same_attributes_def)
  have b: "frame ?st1 (snd ?r)"
    by (rule foreach_rel [where R = frame]) (auto intro: frame_refl frame_trans valid_batch_frame)
  obtain r st2 where r: "?r = (r, st2)" by (cases ?r)
  have c: "frame st st2" using a b r frame_trans by (metis snd_conv)
  have e: "frame st (validation_scores kw epoch st2)"
    using c validation_scores_frame [of st2 kw epoch] frame_trans by blast
  show ?thesis
  proof (cases r)
    case None
    then show ?thesis using r e by (simp add: valid_phase_def Let_def)
  next
    case (Some err)
    then show ?thesis using r c by (simp add: valid_phase_def Let_def)
  qed
qed

lemma valid_phase_error:
  assumes "fst (valid_phase T kw lf epoch st) = Some e"
  shows "e = AttributeError"
proof -
  let ?st1 = "st\<lparr>self := (self st)\<lparr>model := (model (self st))\<lparr>training := False\<rparr>\<rparr>\<rparr>"
  let ?r = "foreach (iter T (test_loader (self ?st1)) epoch) (valid_batch T lf epoch) ?st1"
  obtain r st2 where r: "?r = (r, st2)" by (cases ?r)
  have "r = Some e" using assms r by (cases r) (simp_all add: valid_phase_def Let_def)
  then have "fst ?r = Some e" using r by simp
  then show ?thesis
    by (rule foreach_error [where P = "\<lambda>e. e = AttributeError", rotated])
       (simp add: valid_batch_error)
qed

lemma checkpoint_step_error:
  assumes "fst (checkpoint_step kw epoch st) = Some e"
  shows "e = ZeroDivisionError \<or> e = UnboundLocalError"
  using assms by (auto simp: checkpoint_step_def split: option.splits if_splits)

lemma epoch_body_frame: "frame st (snd (epoch_body T kw lf lwg epoch st))"
proof (cases "lr_scheduler_get_lr T (sched st)")
  case (Inl e)
  then show ?thesis by (simp add: epoch_body_def frame_refl)
next
  case (Inr rates)
  obtain r1 st1 where a: "train_phase T kw lwg epoch st = (r1, st1)"
    by (cases "train_phase T kw lwg epoch st")
  obtain r2 st2 where b: "valid_phase T kw lf epoch st1 = (r2, st2)"
    by (cases "valid_phase T kw lf epoch st1")
  have f1: "frame st st1" using train_phase_frame [of st T kw lwg epoch] a by simp
  have f2: "frame st1 st2" using valid_phase_frame [of st1 T kw lf epoch] b by simp
  have f3: "frame st2 (snd (checkpoint_step kw epoch st2))" by (rule checkpoint_step_frame)
  have f12: "frame st st2" using f1 f2 by (rule frame_trans)
  have f13: "frame st (snd (checkpoint_step kw epoch st2))" using f12 f3 by (rule frame_trans)
  show ?thesis using Inr a b f1 f12 f13
    by (cases r1; cases r2) (simp_all add: epoch_body_def)
qed

lemma lr_scheduler_get_lr_error:
  assumes "lr_scheduler_get_lr T s = Inl e"
  shows "\<exists>c. e = Raised c"
  using assms by (cases s) (auto split: sum.splits)

lemma epoch_body_error:
  assumes "fst (epoch_body T kw lf lwg epoch st) = Some e"
  shows "e = AttributeError \<or> e = ZeroDivisionError \<or> e = UnboundLocalError \<or> (\<exists>c. e = Raised c)"
proof (cases "lr_scheduler_get_lr T (sched st)")
  case (Inl e1)
  then have "e1 = e" using assms by (simp add: epoch_body_def)
  then show ?thesis using Inl lr_scheduler_get_lr_error by blast
next
  case (Inr rates)
  obtain r1 st1 where a: "train_phase T kw lwg epoch st = (r1, st1)"
    by (cases "train_phase T kw lwg epoch st")
  show ?thesis
  proof (cases r1)
    case (Some e1)
    then have "e1 = e" using assms Inr a by (simp add: epoch_body_def)
    then have "fst (train_phase T kw lwg epoch st) = Some e" using a Some by simp
    then show ?thesis using train_phase_error by blast
  next
    case None
    obtain r2 st2 where b: "valid_phase T kw lf epoch st1 = (r2, st2)"
      by (cases "valid_phase T kw lf epoch st1")
    show ?thesis
    proof (cases r2)
      case None
      then have "fst (checkpoint_step kw epoch st2) = Some e"
        using assms Inr a b \<open>r1 = None\<close> by (simp add: epoch_body_def)
      then show ?thesis using checkpoint_step_error by blast
    next
      case (Some e2)
      then have "e2 = e" using assms Inr a b \<open>r1 = None\<close> by (simp add: epoch_body_def)
      then have "fst (valid_phase T kw lf epoch st1) = Some e" using b Some by simp
      then show ?thesis using valid_phase_error by blast
    qed
  qed
qed

lemma initial_locals_self:
  assumes "initial_locals T kw n p = Inr st0"
  shows "self st0 = p\<lparr>epochs := Some n\<rparr>" and "saved st0 = []"
  using assms by (auto simp: initial_locals_def split: sum.splits)

lemma epochs_loop_frame: "frame st (snd (foreach es (epoch_body T kw lf lwg) st))"
  by (rule foreach_rel [where R = frame]) (auto intro: frame_refl frame_trans epoch_body_frame)

lemma epochs_loop_error:
  assumes "fst (foreach es (epoch_body T kw lf lwg) st) = Some e"
  shows "e = AttributeError \<or> e = ZeroDivisionError \<or> e = UnboundLocalError \<or> (\<exists>c. e = Raised c)"
  using assms
  by (rule foreach_error
      [where P = "\<lambda>e. e = AttributeError \<or> e = ZeroDivisionError \<or> e = UnboundLocalError \<or>
                      (\<exists>c. e = Raised c)", rotated])
     (rule epoch_body_error)

lemma initial_locals_error:
  assumes "initial_locals T kw n p = Inl e"
  shows "\<exists>c. e = Raised c"
  using assms
  by (auto simp: initial_locals_def make_optimizer_def make_scheduler_def LambdaLR_init_def
      split: sum.splits option.splits)

text \<open>What \<open>Pipeline_train\<close> gives, case by case.\<close>

lemma train_no_epochs:
  assumes "num_epochs kw = None"
  shows "Pipeline_train T kw p = (Inl (AssertionError ''Provide num_epochs in **kwargs''), p, [])"
  using assms by (simp add: Pipeline_train_def)

lemma train_setup_raises:
  assumes "num_epochs kw = Some n" and "initial_locals T kw n p = Inl e"
  shows "Pipeline_train T kw p = (Inl e, p\<lparr>epochs := Some n\<rparr>, [])"
  using assms by (simp add: Pipeline_train_def)

lemma train_no_loss:
  assumes "num_epochs kw = Some n" and "initial_locals T kw n p = Inr st0"
    and "loss_func kw = None \<or> loss_func_with_grad kw = None"
  shows "Pipeline_train T kw p =
           (Inl (AssertionError ''loss_func and loss_func_with_grad must be present in **kwargs''),
            p\<lparr>epochs := Some n\<rparr>, [])"
  using assms initial_locals_self [OF assms(2)]
  by (auto simp: Pipeline_train_def split: option.split)

lemma train_loop:
  assumes "num_epochs kw = Some n" and "initial_locals T kw n p = Inr st0"
    and "loss_func kw = Some lf" and "loss_func_with_grad kw = Some lwg"
  shows "Pipeline_train T kw p =
           (case foreach [0..<nat n] (epoch_body T kw lf lwg) st0 of
              (Some e, st) \<Rightarrow> (Inl e, self st, saved st)
            | (None, st) \<Rightarrow> (Inr (training_log st, validation_log st), self st, saved st))"
  using assms by (simp add: Pipeline_train_def)

lemma train_batch_saved: "saved (snd (train_batch T lwg epoch b st)) = saved st"
  by (simp add: train_batch_def Let_def)

lemma train_phase_saved: "saved (snd (train_phase T kw lwg epoch st)) = saved st"
proof -
  let ?st1 = "st\<lparr> ys := [], y_preds := [],
                    self := (self st)\<lparr>model := (model (self st))\<lparr>training := True\<rparr>\<rparr>,
                    step := 0 \<rparr>"
  let ?r = "foreach (iter T (train_loader (self ?st1)) epoch) (train_batch T lwg epoch) ?st1"
  have "saved (snd ?r) = saved ?st1"
    by (rule foreach_rel [where R = "\<lambda>a b. saved b = saved a"])
       (simp_all add: train_batch_saved)
  then have a: "saved (snd ?r) = saved st" by simp
  obtain r st2 where r: "?r = (r, st2)" by (cases ?r)
  show ?thesis using a r
    by (cases r)
       (simp_all add: train_phase_def Let_def training_scores_def split: option.split sum.split)
qed

lemma valid_phase_no_batch:
  assumes "iter T (test_loader (self st)) epoch = []"
  shows "fst (valid_phase T kw lf epoch st) = None"
    and "saved (snd (valid_phase T kw lf epoch st)) = saved st"
  using assms
  by (simp_all add: valid_phase_def Let_def validation_scores_def split: option.split)

lemma valid_phase_batch:
  assumes "iter T (test_loader (self st)) epoch = b # bs"
  shows "fst (valid_phase T kw lf epoch st) = Some AttributeError"
    and "saved (snd (valid_phase T kw lf epoch st)) = saved st"
  using assms
  by (simp_all add: valid_phase_def Let_def valid_batch_def dict_append_def)

lemma first_epoch:
  assumes "1 \<le> n"
  shows "[0..<nat n] = 0 # [1..<nat n]"
  using assms by (simp add: upt_conv_Cons)

lemma first_epoch_raises:
  assumes "1 \<le> n" and "fst (epoch_body T kw lf lwg 0 st) = Some e"
  shows "fst (foreach [0..<nat n] (epoch_body T kw lf lwg) st) = Some e"
    and "snd (foreach [0..<nat n] (epoch_body T kw lf lwg) st) = snd (epoch_body T kw lf lwg 0 st)"
  using assms by (cases "epoch_body T kw lf lwg 0 st"; simp add: first_epoch)+

text \<open>
  A run of at least one epoch that reaches the validation loop of its first epoch, with a
  batch there, raises \<^verbatim>\<open>AttributeError\<close> and has written no checkpoint.
\<close>

lemma train_raises_on_validation_batch:
  assumes kw: "num_epochs kw = Some n" "loss_func kw = Some lf" "loss_func_with_grad kw = Some lwg"
    and n: "1 \<le> n"
    and st0: "initial_locals T kw n p = Inr st0"
    and rates: "lr_scheduler_get_lr T (sched st0) = Inr rates"
    and trained: "fst (train_phase T kw lwg 0 st0) = None"
    and batch: "iter T (test_loader p) 0 = b # bs"
  shows "outcome (Pipeline_train T kw p) = Inl AttributeError"
    and "files_written (Pipeline_train T kw p) = []"
proof -
  obtain r1 st1 where t: "train_phase T kw lwg 0 st0 = (r1, st1)"
    by (cases "train_phase T kw lwg 0 st0")
  have r1: "r1 = None" using trained t by simp
  have "frame st0 st1" using train_phase_frame [of st0 T kw lwg 0] t by simp
  then have "test_loader (self st1) = test_loader p"
    by (simp add: frame_def same_attributes_def initial_locals_self [OF st0])
  then have b1: "iter T (test_loader (self st1)) 0 = b # bs" using batch by simp
  have s1: "saved st1 = []"
    using train_phase_saved [of T kw lwg 0 st0] t by (simp add: initial_locals_self [OF st0])
  have v: "fst (valid_phase T kw lf 0 st1) = Some AttributeError"
    "saved (snd (valid_phase T kw lf 0 st1)) = []"
    using valid_phase_batch [OF b1] s1 by simp_all
  have e: "fst (epoch_body T kw lf lwg 0 st0) = Some AttributeError"
    "saved (snd (epoch_body T kw lf lwg 0 st0)) = []"
    using rates t r1 v by (cases "valid_phase T kw lf 0 st1"; simp add: epoch_body_def)+
  have l: "fst (foreach [0..<nat n] (epoch_body T kw lf lwg) st0) = Some AttributeError"
    "saved (snd (foreach [0..<nat n] (epoch_body T kw lf lwg) st0)) = []"
    using first_epoch_raises [OF n e(1)] e(2) by simp_all
  show "outcome (Pipeline_train T kw p) = Inl AttributeError"
    using l(1)
    by (cases "foreach [0..<nat n] (epoch_body T kw lf lwg) st0")
       (simp add: train_loop [OF kw(1) st0 kw(2) kw(3)] outcome_def)
  show "files_written (Pipeline_train T kw p) = []"
    using l(2)
    by (cases "foreach [0..<nat n] (epoch_body T kw lf lwg) st0")
       (simp add: train_loop [OF kw(1) st0 kw(2) kw(3)] files_written_def split: option.split)
qed

text \<open>
  With the fallback scheduler the rate of the optimizer's group is, from the construction
  of the scheduler on, the rate the optimizer was made with times the configured rate.
\<close>

lemma fallback_scheduler_rate:
  assumes "lr_scheduler kw = None" and "step_size_func kw = None"
  shows "make_scheduler kw opt =
           Inr (LambdaLR (group_lr opt) (\<lambda>e. Inr (get_lr kw)) 0,
                opt\<lparr>group_lr := group_lr opt * get_lr kw\<rparr>)"
    and "lr_scheduler_step T (LambdaLR (group_lr opt) (\<lambda>e. Inr (get_lr kw)) k) opt1 =
           Inr (LambdaLR (group_lr opt) (\<lambda>e. Inr (get_lr kw)) (Suc k),
                opt1\<lparr>group_lr := group_lr opt * get_lr kw\<rparr>)"
  using assms by (simp_all add: make_scheduler_def LambdaLR_init_def)

text \<open>
  The checkpoint step itself raises \<^verbatim>\<open>ZeroDivisionError\<close> for the interval 0 and
  never for another interval; a run with the interval 0 and no validation batch raises it
  at the end of its first epoch.
\<close>

lemma checkpoint_step_zero_interval:
  assumes "save_checkpoints kw = Some (0, path)"
  shows "checkpoint_step kw epoch st = (Some ZeroDivisionError, st)"
  using assms by (simp add: checkpoint_step_def)

lemma checkpoint_step_nonzero_interval:
  assumes "save_checkpoints kw = Some (k, path)" and "k \<noteq> 0"
  shows "fst (checkpoint_step kw epoch st) \<noteq> Some ZeroDivisionError"
  using assms by (simp add: checkpoint_step_def split: option.split)

lemma zero_interval_without_validation_batch:
  "outcome (Pipeline_train (torch_ex [(10, 3)] []) (kwargs_checkpoints_ex 2 0) pipeline_ex)
     = Inl ZeroDivisionError"
  by (simp add: train_defs example_defs Let_def upt_rec)

subsection \<open>\<^verbatim>\<open>DatasetMapper\<close>\<close>

text \<open>
  C6, as stated: for every index in \<open>[0, N)\<close>, \<^verbatim>\<open>__getitem__\<close> returns the image and
  its label. It fails at a row whose file-name cell is not a string: for a csv file whose
  image names are written in digits only, \<^verbatim>\<open>os.path.join\<close> raises \<^verbatim>\<open>TypeError\<close> at
  the valid index 0.
\<close>

theorem getitem_numeric_name_raises:
  "(0::int) \<le> 0 \<and> 0 < int (DatasetMapper_len numeric_mapper_ex) \<and>
   DatasetMapper_getitem numeric_mapper_ex (PyInt 0) = Inl TypeError"
  by (simp add: DatasetMapper_getitem_def DatasetMapper_len_def iloc_def numeric_mapper_ex_def
      mapper_ex_def Let_def)

text \<open>
  C6, amended. For every index \<open>i\<close> with \<open>0 \<le> i < N\<close>, given as an int or as a tensor
  holding it, such that the file-name cell of row \<open>i\<close> is a string, \<^verbatim>\<open>__getitem__\<close>
  returns the image that the preprocessor makes from that name joined to the root
  directory, together with the teacher function applied to that image when a teacher
  function is supplied, and with the label column of row \<open>i\<close> otherwise.
\<close>

theorem getitem_image_and_label:
  assumes "idx = PyInt i \<or> idx = Tensor i"
    and "0 \<le> i" and "i < int (DatasetMapper_len d)"
    and "fst (dm_image_data_file d ! nat i) = Str fname"
  shows "DatasetMapper_getitem d idx =
           (let image = get (dm_preprocessor d) (os_path_join (dm_root_dir d) fname)
            in Inr (image,
                    case dm_teacher_func d of
                      Some teacher \<Rightarrow> teacher image
                    | None \<Rightarrow> snd (dm_image_data_file d ! nat i)))"
  using assms
  by (auto simp: DatasetMapper_getitem_def DatasetMapper_len_def iloc_def Let_def
      split: option.split)

theorem getitem_image_and_label_witness:
  "0 \<le> (1::int) \<and> 1 < int (DatasetMapper_len mapper_ex) \<and>
   fst (dm_image_data_file mapper_ex ! nat 1) = Str ''bb.png'' \<and>
   DatasetMapper_getitem mapper_ex (PyInt 1) = Inr (11, 2) \<and>
   0 \<le> (2::int) \<and> 2 < int (DatasetMapper_len teacher_mapper_ex) \<and>
   fst (dm_image_data_file teacher_mapper_ex ! nat 2) = Str ''ccc.png'' \<and>
   DatasetMapper_getitem teacher_mapper_ex (Tensor 2) = Inr (12, 112)"
  using getitem_image_and_label [of "PyInt 1" 1 mapper_ex "''bb.png''"]
    getitem_image_and_label [of "Tensor 2" 2 teacher_mapper_ex "''ccc.png''"]
  by (simp add: DatasetMapper_len_def mapper_ex_def teacher_mapper_ex_def os_path_join_def Let_def)

subsection \<open>\<^verbatim>\<open>Pipeline.__init__\<close>\<close>

text \<open>
  C1. The claim is that construction builds the two dataset mappers and completes without
  error, for every model constructor, batch size, dataset location and preprocessor. In the
  code the constructor raises \<^verbatim>\<open>TypeError\<close> at every input: it calls
  \<^verbatim>\<open>DatasetMapper\<close> with three arguments, and \<^verbatim>\<open>DatasetMapper.__init__\<close> has four
  required parameters.
\<close>

theorem Pipeline_init_raises_TypeError:
  "Pipeline_init T nm mk batch rdir file pre kwargs = Inl TypeError"
  by (simp add: Pipeline_init_def DatasetMapper_init_def Let_def)

subsection \<open>\<^verbatim>\<open>Pipeline.train\<close>: required keyword arguments\<close>

text \<open>
  C4, as stated: whenever one of the three keyword arguments is missing, \<^verbatim>\<open>train\<close>
  fails with an assertion-style error. It fails for \<^verbatim>\<open>train(num_epochs=3, lr=-1.0,
  loss_func_with_grad=f)\<close>: \<^verbatim>\<open>loss_func\<close> is missing, but the optimizer is made before
  the assertion on the loss functions, and \<^verbatim>\<open>Adam\<close> refuses the rate with
  \<^verbatim>\<open>ValueError\<close>.
\<close>

theorem missing_loss_func_raises_ValueError:
  "loss_func (kwargs_negative_lr_ex 3) = None \<and>
   outcome (Pipeline_train (torch_ex [(10, 3)] [(30, 40)]) (kwargs_negative_lr_ex 3) pipeline_ex)
     = Inl (Raised ''ValueError'')"
  by (simp add: train_defs example_defs)

text \<open>
  C4, amended. When \<^verbatim>\<open>num_epochs\<close> is missing, \<^verbatim>\<open>train\<close> raises
  \<^verbatim>\<open>AssertionError\<close> at once. When \<^verbatim>\<open>num_epochs\<close> is present and \<^verbatim>\<open>loss_func\<close> or
  \<^verbatim>\<open>loss_func_with_grad\<close> is missing, \<^verbatim>\<open>train\<close> raises the exception of making the
  optimizer and the scheduler if that raises, and \<^verbatim>\<open>AssertionError\<close> otherwise. In
  both cases no epoch runs: the model and both writers are as they were and no file is
  written. When all three are present, neither assertion fires.
\<close>

theorem train_requires_kwargs:
  "(num_epochs kw = None \<longrightarrow>
      outcome (Pipeline_train T kw p) = Inl (AssertionError ''Provide num_epochs in **kwargs'')) \<and>
   (num_epochs kw = Some n \<and> (loss_func kw = None \<or> loss_func_with_grad kw = None) \<longrightarrow>
      outcome (Pipeline_train T kw p) =
        (case initial_locals T kw n p of
           Inl e \<Rightarrow> Inl e
         | Inr st0 \<Rightarrow>
             Inl (AssertionError ''loss_func and loss_func_with_grad must be present in **kwargs''))) \<and>
   (num_epochs kw = None \<or> loss_func kw = None \<or> loss_func_with_grad kw = None \<longrightarrow>
      model (self_after (Pipeline_train T kw p)) = model p \<and>
      train_writer (self_after (Pipeline_train T kw p)) = train_writer p \<and>
      valid_writer (self_after (Pipeline_train T kw p)) = valid_writer p \<and>
      files_written (Pipeline_train T kw p) = []) \<and>
   (num_epochs kw \<noteq> None \<and> loss_func kw \<noteq> None \<and> loss_func_with_grad kw \<noteq> None \<longrightarrow>
      (\<forall>msg. outcome (Pipeline_train T kw p) \<noteq> Inl (AssertionError msg)))"
proof (intro conjI impI)
  assume "num_epochs kw = None"
  then show "outcome (Pipeline_train T kw p)
      = Inl (AssertionError ''Provide num_epochs in **kwargs'')"
    by (simp add: train_no_epochs outcome_def)
next
  assume a: "num_epochs kw = Some n \<and> (loss_func kw = None \<or> loss_func_with_grad kw = None)"
  show "outcome (Pipeline_train T kw p) =
        (case initial_locals T kw n p of
           Inl e \<Rightarrow> Inl e
         | Inr st0 \<Rightarrow>
             Inl (AssertionError ''loss_func and loss_func_with_grad must be present in **kwargs''))"
  proof (cases "initial_locals T kw n p")
    case (Inl e)
    then show ?thesis using a by (simp add: train_setup_raises outcome_def)
  next
    case (Inr st0)
    then show ?thesis using a train_no_loss [of kw n T p st0] by (simp add: outcome_def)
  qed
next
  assume missing: "num_epochs kw = None \<or> loss_func kw = None \<or> loss_func_with_grad kw = None"
  have "\<exists>r q. Pipeline_train T kw p = (r, q, []) \<and> model q = model p \<and>
          train_writer q = train_writer p \<and> valid_writer q = valid_writer p"
  proof (cases "num_epochs kw")
    case None
    then show ?thesis by (simp add: train_no_epochs)
  next
    case (Some n)
    then have loss: "loss_func kw = None \<or> loss_func_with_grad kw = None" using missing by simp
    show ?thesis
    proof (cases "initial_locals T kw n p")
      case (Inl e)
      then show ?thesis using Some by (simp add: train_setup_raises)
    next
      case (Inr st0)
      then show ?thesis using Some loss train_no_loss [of kw n T p st0] by simp
    qed
  qed
  then obtain r q where q: "Pipeline_train T kw p = (r, q, [])" "model q = model p"
    "train_writer q = train_writer p" "valid_writer q = valid_writer p" by blast
  show "model (self_after (Pipeline_train T kw p)) = model p"
    using q by (simp add: self_after_def)
  show "train_writer (self_after (Pipeline_train T kw p)) = train_writer p"
    using q by (simp add: self_after_def)
  show "valid_writer (self_after (Pipeline_train T kw p)) = valid_writer p"
    using q by (simp add: self_after_def)
  show "files_written (Pipeline_train T kw p) = []"
    using q by (simp add: files_written_def)
next
  assume "num_epochs kw \<noteq> None \<and> loss_func kw \<noteq> None \<and> loss_func_with_grad kw \<noteq> None"
  then obtain n lf lwg where kw: "num_epochs kw = Some n" "loss_func kw = Some lf"
    "loss_func_with_grad kw = Some lwg" by auto
  show "\<forall>msg. outcome (Pipeline_train T kw p) \<noteq> Inl (AssertionError msg)"
  proof (intro allI notI)
    fix msg
    assume a: "outcome (Pipeline_train T kw p) = Inl (AssertionError msg)"
    show False
    proof (cases "initial_locals T kw n p")
      case (Inl e)
      then have "e = AssertionError msg"
        using a kw by (simp add: train_setup_raises outcome_def)
      then show False using initial_locals_error [OF Inl] by auto
    next
      case (Inr st0)
      let ?r = "foreach [0..<nat n] (epoch_body T kw lf lwg) st0"
      obtain r st where r: "?r = (r, st)" by (cases ?r)
      have "r = Some (AssertionError msg)"
        using a r by (cases r) (simp_all add: train_loop [OF kw(1) Inr kw(2) kw(3)] outcome_def)
      then have "fst ?r = Some (AssertionError msg)" using r by simp
      then have "AssertionError msg = AttributeError \<or> AssertionError msg = ZeroDivisionError \<or>
                 AssertionError msg = UnboundLocalError \<or> (\<exists>c. AssertionError msg = Raised c)"
        by (rule epochs_loop_error)
      then show False by simp
    qed
  qed
qed

theorem train_requires_kwargs_witness:
  "num_epochs kwargs_no_epochs_ex = None \<and>
   outcome (Pipeline_train (torch_ex [(10, 3)] [(30, 40)]) kwargs_no_epochs_ex pipeline_ex)
     = Inl (AssertionError ''Provide num_epochs in **kwargs'') \<and>
   num_epochs (kwargs_no_loss_ex 3) = Some 3 \<and> loss_func (kwargs_no_loss_ex 3) = None \<and>
   outcome (Pipeline_train (torch_ex [(10, 3)] [(30, 40)]) (kwargs_no_loss_ex 3) pipeline_ex)
     = Inl (AssertionError ''loss_func and loss_func_with_grad must be present in **kwargs'') \<and>
   model (self_after (Pipeline_train (torch_ex [(10, 3)] [(30, 40)]) (kwargs_no_loss_ex 3) pipeline_ex))
     = model pipeline_ex \<and>
   files_written (Pipeline_train (torch_ex [(10, 3)] [(30, 40)]) (kwargs_no_loss_ex 3) pipeline_ex) = [] \<and>
   num_epochs (kwargs_ex 1) \<noteq> None \<and> loss_func (kwargs_ex 1) \<noteq> None \<and>
   loss_func_with_grad (kwargs_ex 1) \<noteq> None \<and>
   (\<forall>msg. outcome (Pipeline_train (torch_ex [(10, 3)] [(30, 40)]) (kwargs_ex 1) pipeline_ex)
      \<noteq> Inl (AssertionError msg))"
proof -
  have no_epochs: "num_epochs kwargs_no_epochs_ex = None"
    by (simp add: kwargs_no_epochs_ex_def kwargs_ex_def)
  have no_loss: "num_epochs (kwargs_no_loss_ex 3) = Some 3 \<and> loss_func (kwargs_no_loss_ex 3) = None"
    by (simp add: kwargs_no_loss_ex_def kwargs_ex_def)
  have made: "\<exists>st0. initial_locals (torch_ex [(10, 3)] [(30, 40)]) (kwargs_no_loss_ex 3) 3 pipeline_ex
      = Inr st0"
    by (simp add: train_defs example_defs)
  have present: "num_epochs (kwargs_ex 1) \<noteq> None \<and> loss_func (kwargs_ex 1) \<noteq> None \<and>
    loss_func_with_grad (kwargs_ex 1) \<noteq> None"
    by (simp add: kwargs_ex_def)
  show ?thesis
    using train_requires_kwargs [of kwargs_no_epochs_ex "torch_ex [(10, 3)] [(30, 40)]" pipeline_ex]
      train_requires_kwargs [of "kwargs_no_loss_ex 3" "torch_ex [(10, 3)] [(30, 40)]" pipeline_ex 3]
      train_requires_kwargs [of "kwargs_ex 1" "torch_ex [(10, 3)] [(30, 40)]" pipeline_ex]
      no_epochs no_loss made present
    by auto
qed

subsection \<open>\<^verbatim>\<open>Pipeline.train\<close>: the validation log\<close>

text \<open>
  C2. The claim is that over a non-empty validation set each validation batch's loss
  becomes an entry of the validation log and \<^verbatim>\<open>train\<close> returns both logs. In the code
  the first validation batch raises \<^verbatim>\<open>AttributeError\<close>, at
  \<^verbatim>\<open>validation_log.append\<close>: a run of one epoch with one training batch and one
  validation batch does not return.
\<close>

theorem train_validation_append_raises:
  "outcome (Pipeline_train (torch_ex [(10, 3)] [(30, 40)]) (kwargs_ex 1) pipeline_ex)
     = Inl AttributeError"
  by (simp add: train_defs example_defs Let_def)

subsection \<open>\<^verbatim>\<open>Pipeline.train\<close>: the fallback learning rate\<close>

text \<open>
  C3. The claim is that with neither \<^verbatim>\<open>lr_scheduler\<close> nor \<^verbatim>\<open>step_size_func\<close> the
  optimizer applies the configured rate (default 0.001) at every epoch. In the code the
  fallback is \<^verbatim>\<open>LambdaLR(optimizer, lambda e: lr)\<close>, which multiplies the optimizer's
  rate by \<^verbatim>\<open>lr\<close>: in a run of two epochs with the default rate, both optimizer steps
  are made with the rate 0.000001.
\<close>

theorem fallback_rate_is_lr_squared:
  "get_lr (kwargs_ex 2) = 1 / 1000 \<and>
   (\<exists>st0. initial_locals (torch_ex [(10, 3)] []) (kwargs_ex 2) 2 pipeline_ex = Inr st0 \<and>
          group_lr (optimizer st0) = 1 / 1000000) \<and>
   parameters (model (self_after
     (Pipeline_train (torch_ex [(10, 3)] []) (kwargs_ex 2) pipeline_ex)))
     = [1 / 1000000, 1 / 1000000]"
  by (simp add: train_defs example_defs Let_def upt_rec)

subsection \<open>\<^verbatim>\<open>Pipeline.train\<close>: checkpoints\<close>

text \<open>
  C5. The claim is that with a positive interval \<open>k\<close> a checkpoint is persisted at the
  end of epoch \<open>e\<close> exactly when \<open>e\<close> is a multiple of \<open>k\<close>. In the code a run with
  interval 1 over one training batch and one validation batch raises
  \<^verbatim>\<open>AttributeError\<close> in the validation loop of epoch 0, before the checkpoint step: no
  file is written, although 0 is a multiple of 1.
\<close>

theorem checkpoint_not_written_at_epoch_0:
  "outcome (Pipeline_train (torch_ex [(10, 3)] [(30, 40)]) (kwargs_checkpoints_ex 2 1) pipeline_ex)
     = Inl AttributeError \<and>
   files_written (Pipeline_train (torch_ex [(10, 3)] [(30, 40)]) (kwargs_checkpoints_ex 2 1) pipeline_ex)
     = []"
  by (simp add: train_defs example_defs Let_def upt_rec)

text \<open>
  C10. The claim is that with a checkpoint interval of 0 \<^verbatim>\<open>train\<close> raises a
  modulo-by-zero error at the end of the first epoch. In the code a run with the interval
  0 over one training batch and one validation batch raises \<^verbatim>\<open>AttributeError\<close> in the
  validation loop of the first epoch, at \<^verbatim>\<open>validation_log.append\<close>: the checkpoint
  step, whose \<^verbatim>\<open>epoch % 0\<close> would raise \<^verbatim>\<open>ZeroDivisionError\<close>, is not reached.
\<close>

theorem zero_interval_run_raises_AttributeError:
  "save_checkpoints (kwargs_checkpoints_ex 1 0) = Some (0, ''model.pt'') \<and>
   outcome (Pipeline_train (torch_ex [(10, 3)] [(30, 40)]) (kwargs_checkpoints_ex 1 0) pipeline_ex)
     = Inl AttributeError"
  by (simp add: train_defs example_defs Let_def)

subsection \<open>\<^verbatim>\<open>Pipeline.train\<close>: the accumulators and the training log\<close>

text \<open>
  C7. The claim is that in every epoch the validation predictions and labels are appended
  to the accumulators that hold the epoch's training predictions and labels, and that the
  validation scores are computed over the concatenation. In the code the first validation
  batch of an epoch raises \<^verbatim>\<open>AttributeError\<close> before the two \<^verbatim>\<open>+=\<close> statements: after
  an epoch with one training batch (label 3, prediction 20) and one validation batch, the
  accumulators hold the training rows only, no validation score was computed, and
  \<^verbatim>\<open>train\<close> raises.
\<close>

theorem validation_rows_never_accumulated:
  "(\<exists>st0. initial_locals (torch_ex [(10, 3)] [(30, 40)]) (kwargs_scores_ex 1) 1 pipeline_ex = Inr st0 \<and>
      fst (epoch_body (torch_ex [(10, 3)] [(30, 40)]) (kwargs_scores_ex 1)
             (\<lambda>y_pred y. y_pred - y) (\<lambda>y_pred y. y_pred - y) 0 st0) = Some AttributeError \<and>
      ys (snd (epoch_body (torch_ex [(10, 3)] [(30, 40)]) (kwargs_scores_ex 1)
             (\<lambda>y_pred y. y_pred - y) (\<lambda>y_pred y. y_pred - y) 0 st0)) = [3] \<and>
      y_preds (snd (epoch_body (torch_ex [(10, 3)] [(30, 40)]) (kwargs_scores_ex 1)
             (\<lambda>y_pred y. y_pred - y) (\<lambda>y_pred y. y_pred - y) 0 st0)) = [20] \<and>
      scores (validation_log (snd (epoch_body (torch_ex [(10, 3)] [(30, 40)]) (kwargs_scores_ex 1)
             (\<lambda>y_pred y. y_pred - y) (\<lambda>y_pred y. y_pred - y) 0 st0))) = []) \<and>
   outcome (Pipeline_train (torch_ex [(10, 3)] [(30, 40)]) (kwargs_scores_ex 1) pipeline_ex)
     = Inl AttributeError"
  by (simp add: train_defs example_defs Let_def)

text \<open>
  C8. The claim is that within an epoch the recorded step indices strictly increase with
  successive training batches. In the code \<^verbatim>\<open>step\<close> is set to 0 at the start of the
  epoch and never incremented: a run of one epoch over two training batches records the
  step 0 twice.
\<close>

theorem training_steps_all_zero:
  "outcome (Pipeline_train (torch_ex [(10, 3), (11, 4)] []) (kwargs_ex 1) pipeline_ex)
     = Inr (\<lparr> errors = [TrainEntry 0 0 17, TrainEntry 0 0 18], scores = [] \<rparr>,
            \<lparr> errors = [], scores = [] \<rparr>)"
  by (simp add: train_defs example_defs Let_def upt_rec)

subsection \<open>\<^verbatim>\<open>Pipeline.train\<close>: the frame\<close>

text \<open>
  C9, as stated: apart from the model's parameters and the two logs, every attribute of
  the \<^verbatim>\<open>Pipeline\<close> object is unchanged between entry to and exit from \<^verbatim>\<open>train\<close>. It
  fails for the attribute \<^verbatim>\<open>epochs\<close>, which \<^verbatim>\<open>train\<close> assigns.
\<close>

theorem train_assigns_epochs:
  "epochs (self_after (Pipeline_train (torch_ex [(10, 3)] []) (kwargs_ex 1) pipeline_ex))
     \<noteq> epochs pipeline_ex"
  by (simp add: train_defs example_defs Let_def upt_rec)

text \<open>
  C9, amended. \<^verbatim>\<open>train\<close> assigns \<^verbatim>\<open>num_epochs\<close> to the attribute \<^verbatim>\<open>epochs\<close> when
  the keyword is given. Apart from that attribute, the parameters and the mode of the model
  and the calls received by the two writers, the \<^verbatim>\<open>Pipeline\<close> object is unchanged
  between entry to and exit from \<^verbatim>\<open>train\<close>, whether \<^verbatim>\<open>train\<close> returns or raises.
\<close>

theorem train_frame:
  "same_attributes p (self_after (Pipeline_train T kw p)) \<and>
   epochs (self_after (Pipeline_train T kw p)) =
     (case num_epochs kw of None \<Rightarrow> epochs p | Some n \<Rightarrow> Some n)"
proof (cases "num_epochs kw")
  case None
  then show ?thesis by (simp add: train_no_epochs self_after_def same_attributes_def)
next
  case n: (Some n)
  show ?thesis
  proof (cases "initial_locals T kw n p")
    case (Inl e)
    then show ?thesis using n by (simp add: train_setup_raises self_after_def same_attributes_def)
  next
    case st0: (Inr st0)
    show ?thesis
    proof (cases "loss_func kw = None \<or> loss_func_with_grad kw = None")
      case True
      then show ?thesis using n train_no_loss [OF n st0]
        by (simp add: self_after_def same_attributes_def)
    next
      case False
      then obtain lf lwg where l: "loss_func kw = Some lf" "loss_func_with_grad kw = Some lwg"
        by auto
      let ?r = "foreach [0..<nat n] (epoch_body T kw lf lwg) st0"
      have f: "frame st0 (snd ?r)" by (rule epochs_loop_frame)
      obtain r st where r: "?r = (r, st)" by (cases ?r)
      have "self_after (Pipeline_train T kw p) = self st"
        using r by (cases r) (simp_all add: train_loop [OF n st0 l] self_after_def)
      then show ?thesis using f r n
        by (simp add: frame_def same_attributes_def initial_locals_self [OF st0])
    qed
  qed
qed

end
